theory Spec2Isabelle
  imports Complex_Main
begin

section \<open>Number model\<close>

text \<open>
  The program computes with Python floats and with numpy doubles. A finite float is
  modelled by the real number it stands for: rounding and overflow are left out, and
  every statement below is about the exact arithmetic of the formulas.

  Two behaviours of the source are kept explicit, because claims depend on them.
  Dividing two Python floats raises \<open>ZeroDivisionError\<close> when the divisor is zero
  (the mortgage functions work on Python floats only). The numpy functions never raise:
  \<open>np.log\<close> of zero is \<open>-inf\<close> and of a negative number is \<open>nan\<close>, and both
  travel through the arithmetic that follows. A numpy result is therefore a value of
  \<open>npfloat\<close>. A real zero is read as the float \<open>+0.0\<close>.
\<close>

datatype py_error = ZeroDivisionError

definition py_truediv :: "real \<Rightarrow> real \<Rightarrow> py_error + real" where
  "py_truediv a b = (if b = 0 then Inl ZeroDivisionError else Inr (a / b))"

datatype npfloat = Fin real | PosInf | NegInf | NaN

fun np_neg :: "npfloat \<Rightarrow> npfloat" where
  "np_neg (Fin a) = Fin (- a)"
| "np_neg PosInf = NegInf"
| "np_neg NegInf = PosInf"
| "np_neg NaN = NaN"

fun np_add :: "npfloat \<Rightarrow> npfloat \<Rightarrow> npfloat" where
  "np_add (Fin a) (Fin b) = Fin (a + b)"
| "np_add NaN b = NaN"
| "np_add a NaN = NaN"
| "np_add PosInf NegInf = NaN"
| "np_add NegInf PosInf = NaN"
| "np_add PosInf b = PosInf"
| "np_add a PosInf = PosInf"
| "np_add NegInf b = NegInf"
| "np_add a NegInf = NegInf"

definition np_sub :: "npfloat \<Rightarrow> npfloat \<Rightarrow> npfloat" where
  "np_sub a b = np_add a (np_neg b)"

text \<open>An infinity times a finite number: the sign of the product, \<open>nan\<close> at zero.\<close>

definition np_scale_inf :: "npfloat \<Rightarrow> real \<Rightarrow> npfloat" where
  "np_scale_inf i a = (if 0 < a then i else if a < 0 then np_neg i else NaN)"

fun np_mul :: "npfloat \<Rightarrow> npfloat \<Rightarrow> npfloat" where
  "np_mul (Fin a) (Fin b) = Fin (a * b)"
| "np_mul NaN b = NaN"
| "np_mul a NaN = NaN"
| "np_mul (Fin a) b = np_scale_inf b a"
| "np_mul a (Fin b) = np_scale_inf a b"
| "np_mul PosInf b = b"
| "np_mul NegInf b = np_neg b"

fun np_div :: "npfloat \<Rightarrow> npfloat \<Rightarrow> npfloat" where
  "np_div (Fin a) (Fin b) =
     (if b \<noteq> 0 then Fin (a / b)
      else if 0 < a then PosInf else if a < 0 then NegInf else NaN)"
| "np_div NaN b = NaN"
| "np_div a NaN = NaN"
| "np_div (Fin a) b = Fin 0"
| "np_div a (Fin b) = (if 0 \<le> b then a else np_neg a)"
| "np_div a b = NaN"

fun np_log :: "npfloat \<Rightarrow> npfloat" where
  "np_log (Fin a) = (if 0 < a then Fin (ln a) else if a = 0 then NegInf else NaN)"
| "np_log PosInf = PosInf"
| "np_log NegInf = NaN"
| "np_log NaN = NaN"

fun np_exp :: "npfloat \<Rightarrow> npfloat" where
  "np_exp (Fin a) = Fin (exp a)"
| "np_exp PosInf = PosInf"
| "np_exp NegInf = Fin 0"
| "np_exp NaN = NaN"

fun np_tanh :: "npfloat \<Rightarrow> npfloat" where
  "np_tanh (Fin a) = Fin (tanh a)"
| "np_tanh PosInf = Fin 1"
| "np_tanh NegInf = Fin (- 1)"
| "np_tanh NaN = NaN"

fun np_sqrt :: "npfloat \<Rightarrow> npfloat" where
  "np_sqrt (Fin a) = (if 0 \<le> a then Fin (sqrt a) else NaN)"
| "np_sqrt PosInf = PosInf"
| "np_sqrt NegInf = NaN"
| "np_sqrt NaN = NaN"

text \<open>\<open>z**2\<close> on a numpy double.\<close>

definition np_square :: "npfloat \<Rightarrow> npfloat" where
  "np_square z = np_mul z z"

text \<open>Comparison of numpy doubles: every comparison with \<open>nan\<close> is false.\<close>

fun np_less :: "npfloat \<Rightarrow> npfloat \<Rightarrow> bool" where
  "np_less (Fin a) (Fin b) = (a < b)"
| "np_less NaN b = False"
| "np_less a NaN = False"
| "np_less a NegInf = False"
| "np_less PosInf b = False"
| "np_less a b = True"

text \<open>
  Python's \<open>max(0, v)\<close>: the builtin keeps its first argument unless the second is
  strictly greater, so \<open>max(0, nan)\<close> is \<open>0\<close>.
\<close>

definition py_max0 :: "npfloat \<Rightarrow> npfloat" where
  "py_max0 v = (if np_less (Fin 0) v then v else Fin 0)"

section \<open>Mortgage qualification engine\<close>

text \<open>
  The level monthly payment, written the same way in every variant:
  \<open>loan * (monthly_rate * (1 + monthly_rate)**n_payments) / ((1 + monthly_rate)**n_payments - 1)\<close>.
\<close>

definition monthly_payment :: "real \<Rightarrow> real \<Rightarrow> nat \<Rightarrow> py_error + real" where
  "monthly_payment loan monthly_rate n_payments =
     py_truediv (loan * (monthly_rate * (1 + monthly_rate) ^ n_payments))
                ((1 + monthly_rate) ^ n_payments - 1)"

text \<open>\<open>calc_affordable\<close> of app.py (simple regime): income needed and down payment.\<close>

definition calc_affordable :: "real \<Rightarrow> real \<Rightarrow> real \<Rightarrow> py_error + (real \<times> real)" where
  "calc_affordable price down_pct rate =
     (let down_payment = price * down_pct;
          loan = price - down_payment;
          monthly_rate = rate / 12;
          n_payments = 25 * 12
      in case monthly_payment loan monthly_rate n_payments of
           Inl e \<Rightarrow> Inl e
         | Inr mp \<Rightarrow> Inr (mp * 12 / 0.28, down_payment))"

text \<open>
  \<open>calc_affordable\<close> of app2.py and app4.py: the same, with the income clamped by
  \<open>max(0, ...)\<close>.
\<close>

definition calc_affordable_app2 :: "real \<Rightarrow> real \<Rightarrow> real \<Rightarrow> py_error + (real \<times> real)" where
  "calc_affordable_app2 price down_pct rate =
     (let down_payment = price * down_pct;
          loan = price - down_payment;
          monthly_rate = rate / 12;
          n_payments = 25 * 12
      in case monthly_payment loan monthly_rate n_payments of
           Inl e \<Rightarrow> Inl e
         | Inr mp \<Rightarrow> Inr (max 0 (mp * 12 / 0.28), down_payment))"

text \<open>\<open>calculate_down_payment\<close> of app7.py.\<close>

definition calculate_down_payment :: "real \<Rightarrow> real" where
  "calculate_down_payment price =
     (if price \<le> 500000 then price * 0.05
      else if price \<le> 1500000 then
        (let first_500k = 500000 * 0.05;
             above_500k = (price - 500000) * 0.10
         in first_500k + above_500k)
      else price * 0.20)"

text \<open>\<open>calculate_down_payment\<close> of app5.py, which also takes the two buyer flags.\<close>

definition calculate_down_payment_app5 :: "real \<Rightarrow> bool \<Rightarrow> bool \<Rightarrow> real" where
  "calculate_down_payment_app5 price first_time_buyer new_construction =
     (if price \<le> 500000 then price * 0.05
      else if price \<le> 1500000 then
        (let first_500k = 500000 * 0.05;
             above_500k = (price - 500000) * 0.10
         in first_500k + above_500k)
      else price * 0.20)"

text \<open>
  \<open>calc_stress_test_payment\<close> of app7.py. The result is
  \<open>(income_needed, down_payment, stress_rate, amortization_years)\<close>.
\<close>

definition calc_stress_test_payment ::
  "real \<Rightarrow> real \<Rightarrow> bool \<Rightarrow> bool \<Rightarrow> py_error + (real \<times> real \<times> real \<times> nat)" where
  "calc_stress_test_payment price contract_rate first_time_buyer new_construction =
     (let down_payment = calculate_down_payment price;
          loan = price - down_payment;
          stress_rate = max 0.0525 (contract_rate + 0.02);
          amortization_years = (if first_time_buyer \<or> new_construction then 30 else 25);
          n_payments = amortization_years * 12;
          monthly_rate = stress_rate / 12
      in case monthly_payment loan monthly_rate n_payments of
           Inl e \<Rightarrow> Inl e
         | Inr mp \<Rightarrow> Inr (mp * 12 / 0.39, down_payment, stress_rate, amortization_years))"

text \<open>\<open>calc_stress_test_payment\<close> of app5.py: the flags also go to the down payment.\<close>

definition calc_stress_test_payment_app5 ::
  "real \<Rightarrow> real \<Rightarrow> bool \<Rightarrow> bool \<Rightarrow> py_error + (real \<times> real \<times> real \<times> nat)" where
  "calc_stress_test_payment_app5 price contract_rate first_time_buyer new_construction =
     (let down_payment = calculate_down_payment_app5 price first_time_buyer new_construction;
          loan = price - down_payment;
          stress_rate = max 0.0525 (contract_rate + 0.02);
          amortization_years = (if first_time_buyer \<or> new_construction then 30 else 25);
          n_payments = amortization_years * 12;
          monthly_rate = stress_rate / 12
      in case monthly_payment loan monthly_rate n_payments of
           Inl e \<Rightarrow> Inl e
         | Inr mp \<Rightarrow> Inr (mp * 12 / 0.39, down_payment, stress_rate, amortization_years))"

section \<open>Income distribution model\<close>

text \<open>
  \<open>lognorm_cdf(x, s, scale)\<close> of app.py. It has no guard on \<open>x\<close>, and its callers
  pass \<open>sigma = 0.95\<close> and \<open>scale = np.exp(10.45)\<close>.
\<close>

definition lognorm_cdf :: "real \<Rightarrow> real \<Rightarrow> real \<Rightarrow> npfloat" where
  "lognorm_cdf x s scale =
     (let z = np_div (np_sub (np_log (Fin x)) (np_log (Fin scale))) (Fin s)
      in np_mul (Fin 0.5)
           (np_add
              (np_add (Fin 1) (np_tanh (np_div (np_mul (np_sqrt (Fin 2)) z) (Fin 2))))
              (np_mul (np_sqrt (Fin (2 / pi)))
                      (np_exp (np_div (np_neg (np_square z)) (Fin 2))))))"

text \<open>
  \<open>lognorm_cdf(x, mu=10.45, sigma=0.95)\<close> of app2.py, app4.py, app5.py and app7.py
  (one text in the four files). Every caller leaves \<open>mu\<close> and \<open>sigma\<close> at their
  defaults.
\<close>

definition lognorm_cdf_app2 :: "real \<Rightarrow> real \<Rightarrow> real \<Rightarrow> npfloat" where
  "lognorm_cdf_app2 x mu sigma =
     (if x \<le> 0 then Fin 0
      else
        (let z = np_div (np_sub (np_log (Fin x)) (Fin mu)) (Fin sigma)
         in np_mul (Fin 0.5) (np_add (Fin 1) (np_tanh (np_mul (np_sqrt (Fin (2 / 3))) z)))))"

text \<open>The survival probability of app.py: \<open>prob = 1 - lognorm_cdf(income_needed, sigma, scale)\<close>.\<close>

definition prob_app :: "real \<Rightarrow> npfloat" where
  "prob_app income_needed = np_sub (Fin 1) (lognorm_cdf income_needed 0.95 (exp 10.45))"

text \<open>
  The survival probability of the later variants:
  \<open>prob = max(0, 1 - lognorm_cdf(income_needed))\<close>.
\<close>

definition prob_app2 :: "real \<Rightarrow> npfloat" where
  "prob_app2 income_needed = py_max0 (np_sub (Fin 1) (lognorm_cdf_app2 income_needed 10.45 0.95))"

section \<open>Household policy and the two-property comparison\<close>

text \<open>The two options of the household radio button of app4.py, app5.py and app7.py.\<close>

datatype household = Single | Couple

definition household_income :: "household \<Rightarrow> real \<Rightarrow> real" where
  "household_income household_type income_single =
     (case household_type of Single \<Rightarrow> income_single | Couple \<Rightarrow> income_single * 0.75)"

definition pop_mult :: "household \<Rightarrow> real" where
  "pop_mult household_type = (case household_type of Single \<Rightarrow> 0.40 | Couple \<Rightarrow> 0.60)"

text \<open>
  The qualified-buyer count of one property in app7.py (and, with the same text, app5.py):
  \<open>people = prob * region_pop * pop_mult\<close>.
\<close>

definition people_app7 ::
  "real \<Rightarrow> real \<Rightarrow> real \<Rightarrow> household \<Rightarrow> bool \<Rightarrow> bool \<Rightarrow> py_error + npfloat" where
  "people_app7 price region_rate region_pop household_type first_time new_constr =
     (case calc_stress_test_payment price region_rate first_time new_constr of
        Inl e \<Rightarrow> Inl e
      | Inr (income_single, down, stress, amort) \<Rightarrow>
          (let income_needed = household_income household_type income_single;
               prob = prob_app2 income_needed
           in Inr (np_mul (np_mul prob (Fin region_pop)) (Fin (pop_mult household_type)))))"

text \<open>
  What the comparison reports: a winner, a tie (app7.py only), or nothing (\<open>None\<close>).
\<close>

datatype verdict = Property1_wins | Property2_wins | Tie

text \<open>app4.py: \<open>buyer_diff = people1 - people2\<close>, then \<open>if buyer_diff > 0 ... else ...\<close>.\<close>

definition winner_app4 :: "real \<Rightarrow> real \<Rightarrow> npfloat \<Rightarrow> npfloat \<Rightarrow> verdict option" where
  "winner_app4 price1 price2 people1 people2 =
     (let buyer_diff = np_sub people1 people2
      in if \<bar>price1 - price2\<bar> > 50000 then
           (if np_less (Fin 0) buyer_diff then Some Property1_wins else Some Property2_wins)
         else None)"

text \<open>app5.py: \<open>if people1 > people2 ... else ...\<close>.\<close>

definition winner_app5 :: "real \<Rightarrow> real \<Rightarrow> npfloat \<Rightarrow> npfloat \<Rightarrow> verdict option" where
  "winner_app5 price1 price2 people1 people2 =
     (if \<bar>price1 - price2\<bar> > 50000 then
        (if np_less people2 people1 then Some Property1_wins else Some Property2_wins)
      else None)"

text \<open>app7.py: three branches on \<open>buyer_difference = people1 - people2\<close>.\<close>

definition winner_app7 :: "real \<Rightarrow> real \<Rightarrow> npfloat \<Rightarrow> npfloat \<Rightarrow> verdict option" where
  "winner_app7 price1 price2 people1 people2 =
     (let buyer_difference = np_sub people1 people2
      in if \<bar>price1 - price2\<bar> > 50000 then
           (if np_less (Fin 0) buyer_difference then Some Property1_wins
            else if np_less buyer_difference (Fin 0) then Some Property2_wins
            else Some Tie)
         else None)"

text \<open>The comparison of app7.py from its inputs to the report.\<close>

definition compare_app7 ::
  "real \<Rightarrow> real \<Rightarrow> real \<Rightarrow> real \<Rightarrow> household \<Rightarrow> bool \<Rightarrow> bool
     \<Rightarrow> py_error + verdict option" where
  "compare_app7 price1 price2 region_rate region_pop household_type first_time new_constr =
     (case people_app7 price1 region_rate region_pop household_type first_time new_constr of
        Inl e \<Rightarrow> Inl e
      | Inr people1 \<Rightarrow>
          (case people_app7 price2 region_rate region_pop household_type first_time new_constr of
             Inl e \<Rightarrow> Inl e
           | Inr people2 \<Rightarrow> Inr (winner_app7 price1 price2 people1 people2)))"

section \<open>Auxiliary notions and the annuity factor\<close>

text \<open>
  For a positive periodic rate the denominator of the payment formula is positive, so
  the payment is the loan times a positive factor.
\<close>

definition annuity_factor :: "real \<Rightarrow> nat \<Rightarrow> real" where
  "annuity_factor r n = r * (1 + r) ^ n / ((1 + r) ^ n - 1)"

text \<open>
  The finite value of the guarded cumulative function, used to state that its result is
  a finite number.
\<close>

definition cdf_value :: "real \<Rightarrow> real \<Rightarrow> real \<Rightarrow> real" where
  "cdf_value x mu sigma =
     (if x \<le> 0 then 0 else 0.5 * (1 + tanh (sqrt (2 / 3) * ((ln x - mu) / sigma))))"

text \<open>
  The values of app.py's formula one and four standard deviations above the median
  (\<open>z = 1\<close> and \<open>z = 4\<close>).
\<close>

definition app_cdf_at_z1 :: real where
  "app_cdf_at_z1 = 0.5 * (1 + tanh (sqrt 2 / 2) + sqrt (2 / pi) * exp (- 1 / 2))"

definition app_cdf_at_z4 :: real where
  "app_cdf_at_z4 = 0.5 * (1 + tanh (sqrt 2 * 4 / 2) + sqrt (2 / pi) * exp (- 16 / 2))"

lemma annuity_denominator_pos:
  assumes "0 < r" and "0 < n"
  shows "0 < (1 + r) ^ n - (1::real)"
proof -
  have "1 < (1 + r) ^ n"
    using assms by (intro one_less_power) simp_all
  then show ?thesis by simp
qed

lemma annuity_factor_pos:
  assumes "0 < r" and "0 < n"
  shows "0 < annuity_factor r n"
proof -
  have "0 < r * (1 + r) ^ n"
    using assms by simp
  then show ?thesis
    unfolding annuity_factor_def
    using annuity_denominator_pos [OF assms] by (rule divide_pos_pos)
qed

lemma monthly_payment_pos_rate:
  assumes "0 < r" and "0 < n"
  shows "monthly_payment loan r n = Inr (loan * annuity_factor r n)"
  using annuity_denominator_pos [OF assms]
  by (simp add: monthly_payment_def py_truediv_def annuity_factor_def)

lemma stress_rate_pos: "0 < max 0.0525 (c + 0.02) / (12::real)"
  by (simp add: max_def)

lemma calc_stress_test_payment_value:
  "calc_stress_test_payment price c ft nc =
     Inr ((price - calculate_down_payment price)
            * annuity_factor (max 0.0525 (c + 0.02) / 12) ((if ft \<or> nc then 30 else 25) * 12)
            * 12 / 0.39,
          calculate_down_payment price,
          max 0.0525 (c + 0.02),
          if ft \<or> nc then 30 else 25)"
proof -
  have "monthly_payment loan (max 0.0525 (c + 0.02) / 12) ((if ft \<or> nc then 30 else 25) * 12)
          = Inr (loan * annuity_factor (max 0.0525 (c + 0.02) / 12)
                   ((if ft \<or> nc then 30 else 25) * 12))" for loan
    by (rule monthly_payment_pos_rate [OF stress_rate_pos]) simp
  then show ?thesis
    by (simp add: calc_stress_test_payment_def Let_def)
qed

lemma calculate_down_payment_app5_eq:
  "calculate_down_payment_app5 price ft nc = calculate_down_payment price"
  by (simp add: calculate_down_payment_app5_def calculate_down_payment_def)

lemma calc_stress_test_payment_app5_eq:
  "calc_stress_test_payment_app5 price c ft nc = calc_stress_test_payment price c ft nc"
  by (simp add: calc_stress_test_payment_app5_def calc_stress_test_payment_def
      calculate_down_payment_app5_eq)

section \<open>Amortization term and qualifying rate\<close>

text \<open>
  C7. In the stress-tested regime (app5.py and app7.py) the call always returns, and the
  amortization term it returns is 30 years when the buyer is first-time or the property
  is new construction, and 25 years otherwise, whatever the price and the contract rate:
  two calls with the same flags return the same term.
\<close>

theorem amortization_term_by_flags:
  "(\<exists>income down rate.
      calc_stress_test_payment price c ft nc
        = Inr (income, down, rate, if ft \<or> nc then 30 else 25)
    \<and> calc_stress_test_payment_app5 price c ft nc
        = Inr (income, down, rate, if ft \<or> nc then 30 else 25))
   \<and> (\<exists>income1 down1 rate1 income2 down2 rate2 years.
        calc_stress_test_payment p1 c1 ft nc = Inr (income1, down1, rate1, years)
      \<and> calc_stress_test_payment p2 c2 ft nc = Inr (income2, down2, rate2, years))"
proof (intro conjI)
  show "\<exists>income down rate.
      calc_stress_test_payment price c ft nc
        = Inr (income, down, rate, if ft \<or> nc then 30 else 25)
    \<and> calc_stress_test_payment_app5 price c ft nc
        = Inr (income, down, rate, if ft \<or> nc then 30 else 25)"
    unfolding calc_stress_test_payment_app5_eq
    using calc_stress_test_payment_value [of price c ft nc] by blast
  show "\<exists>income1 down1 rate1 income2 down2 rate2 years.
        calc_stress_test_payment p1 c1 ft nc = Inr (income1, down1, rate1, years)
      \<and> calc_stress_test_payment p2 c2 ft nc = Inr (income2, down2, rate2, years)"
    using calc_stress_test_payment_value [of p1 c1 ft nc]
      calc_stress_test_payment_value [of p2 c2 ft nc] by blast
qed

text \<open>
  C6. In the stress-tested regime the qualifying rate returned, and used for the monthly
  rate of the payment, is \<open>max(0.0525, contract_rate + 0.02)\<close>: 0.065 at a contract
  rate of 0.045, and the floor 0.0525 at a contract rate of 0.01.
\<close>

theorem stress_rate_is_max_floor_buffer:
  "(\<exists>income down years.
      calc_stress_test_payment price c ft nc = Inr (income, down, max 0.0525 (c + 0.02), years)
    \<and> calc_stress_test_payment_app5 price c ft nc
        = Inr (income, down, max 0.0525 (c + 0.02), years)
    \<and> monthly_payment (price - down) (max 0.0525 (c + 0.02) / 12) (years * 12)
        = Inr (income * 0.39 / 12))
   \<and> (\<exists>income down years.
        calc_stress_test_payment price 0.045 ft nc = Inr (income, down, 0.065, years))
   \<and> (\<exists>income down years.
        calc_stress_test_payment price 0.01 ft nc = Inr (income, down, 0.0525, years))"
proof (intro conjI)
  let ?years = "if ft \<or> nc then 30 else 25 :: nat"
  let ?down = "calculate_down_payment price"
  let ?income = "(price - ?down) * annuity_factor (max 0.0525 (c + 0.02) / 12) (?years * 12)
                   * 12 / 0.39"
  have v: "calc_stress_test_payment price c ft nc
             = Inr (?income, ?down, max 0.0525 (c + 0.02), ?years)"
    by (rule calc_stress_test_payment_value)
  have pay: "monthly_payment (price - ?down) (max 0.0525 (c + 0.02) / 12) (?years * 12)
               = Inr (?income * 0.39 / 12)"
    by (subst monthly_payment_pos_rate [OF stress_rate_pos]) simp_all
  show "\<exists>income down years.
      calc_stress_test_payment price c ft nc = Inr (income, down, max 0.0525 (c + 0.02), years)
    \<and> calc_stress_test_payment_app5 price c ft nc
        = Inr (income, down, max 0.0525 (c + 0.02), years)
    \<and> monthly_payment (price - down) (max 0.0525 (c + 0.02) / 12) (years * 12)
        = Inr (income * 0.39 / 12)"
    using v pay unfolding calc_stress_test_payment_app5_eq by blast
  have "max 0.0525 (0.045 + 0.02) = (0.065::real)" by simp
  then show "\<exists>income down years.
      calc_stress_test_payment price 0.045 ft nc = Inr (income, down, 0.065, years)"
    using calc_stress_test_payment_value [of price "0.045" ft nc] by metis
  have "max 0.0525 (0.01 + 0.02) = (0.0525::real)" by simp
  then show "\<exists>income down years.
      calc_stress_test_payment price 0.01 ft nc = Inr (income, down, 0.0525, years)"
    using calc_stress_test_payment_value [of price "0.01" ft nc] by metis
qed

section \<open>Down payment and buyer flags\<close>

text \<open>
  C10. The tiered down payment does not depend on the buyer flags: app5.py's
  \<open>calculate_down_payment\<close> returns the same amount for any two assignments of the
  first-time-buyer and new-construction flags, namely the amount app7.py's flag-free
  function returns for that price.
\<close>

theorem down_payment_ignores_flags:
  "calculate_down_payment_app5 price ft nc = calculate_down_payment_app5 price ft' nc'
   \<and> calculate_down_payment_app5 price ft nc = calculate_down_payment price"
  by (simp add: calculate_down_payment_app5_def calculate_down_payment_def)

section \<open>The annuity formula at a zero rate\<close>

lemma monthly_payment_zero_rate: "monthly_payment loan 0 n = Inl ZeroDivisionError"
  by (simp add: monthly_payment_def py_truediv_def)

lemma calc_affordable_pos_rate:
  assumes "0 < rate"
  shows "calc_affordable price down_pct rate
           = Inr ((price - price * down_pct) * annuity_factor (rate / 12) (25 * 12) * 12 / 0.28,
                  price * down_pct)"
proof -
  have "0 < rate / 12" using assms by simp
  then have "monthly_payment loan (rate / 12) (25 * 12)
               = Inr (loan * annuity_factor (rate / 12) (25 * 12))" for loan
    by (rule monthly_payment_pos_rate) simp
  then show ?thesis
    by (simp add: calc_affordable_def Let_def)
qed

text \<open>
  C3, as amended. No variant special-cases a zero rate. With a periodic rate of exactly 0
  the denominator \<open>(1 + 0)**n - 1\<close> is 0 for every number of payments, so the payment
  formula raises \<open>ZeroDivisionError\<close> whatever the principal, instead of returning
  \<open>principal / n\<close>, and so does \<open>calc_affordable\<close> at a contract rate of 0, in
  app.py as in app2.py and app4.py.
\<close>

theorem annuity_zero_rate_raises:
  "monthly_payment loan 0 n = Inl ZeroDivisionError
   \<and> monthly_payment loan 0 n \<noteq> Inr (loan / real n)
   \<and> calc_affordable price down_pct 0 = Inl ZeroDivisionError
   \<and> calc_affordable_app2 price down_pct 0 = Inl ZeroDivisionError"
proof (intro conjI)
  show "monthly_payment loan 0 n = Inl ZeroDivisionError"
    by (rule monthly_payment_zero_rate)
  then show "monthly_payment loan 0 n \<noteq> Inr (loan / real n)"
    by simp
  show "calc_affordable price down_pct 0 = Inl ZeroDivisionError"
    by (simp add: calc_affordable_def monthly_payment_zero_rate)
  show "calc_affordable_app2 price down_pct 0 = Inl ZeroDivisionError"
    by (simp add: calc_affordable_app2_def monthly_payment_zero_rate)
qed

text \<open>
  The claim as stated fails: a principal of 760,000 over 300 payments at a periodic rate
  of 0 does not return 760,000 / 300, the division raises.
\<close>

theorem annuity_zero_rate_not_principal_over_n:
  "monthly_payment 760000 0 300 = Inl ZeroDivisionError
   \<and> monthly_payment 760000 0 300 \<noteq> Inr (760000 / 300)
   \<and> calc_affordable 800000 0.05 0 = Inl ZeroDivisionError"
  by (simp add: calc_affordable_def monthly_payment_zero_rate)

section \<open>The end-to-end scenario of the simple regime\<close>

lemma scenario_factor_pos: "0 < annuity_factor (0.045 / 12) (25 * 12)"
  by (rule annuity_factor_pos) simp_all

text \<open>
  C5, as amended. At a price of 800,000, a down rate of 5%, a contract rate of 4.5% and a
  debt-service ratio of 28%, the down payment is 40,000, the payment formula is evaluated
  on a loan of 760,000, and the required income is strictly less than the required
  income of the same price and rate at a 3% down rate (down payment 24,000, loan 776,000).
\<close>

theorem scenario_800k_simple_regime:
  "\<exists>payment income5 income3.
     monthly_payment 760000 (0.045 / 12) (25 * 12) = Inr payment
   \<and> income5 = payment * 12 / 0.28
   \<and> calc_affordable 800000 0.05 0.045 = Inr (income5, 40000)
   \<and> calc_affordable 800000 0.03 0.045 = Inr (income3, 24000)
   \<and> income5 < income3"
proof (intro exI conjI)
  show "monthly_payment 760000 (0.045 / 12) (25 * 12)
          = Inr (760000 * annuity_factor (0.045 / 12) (25 * 12))"
    by (rule monthly_payment_pos_rate) simp_all
  show "760000 * annuity_factor (0.045 / 12) (25 * 12) * 12 / 0.28
          = 760000 * annuity_factor (0.045 / 12) (25 * 12) * 12 / 0.28"
    by (rule refl)
  show "calc_affordable 800000 0.05 0.045
          = Inr (760000 * annuity_factor (0.045 / 12) (25 * 12) * 12 / 0.28, 40000)"
    by (simp add: calc_affordable_pos_rate)
  show "calc_affordable 800000 0.03 0.045
          = Inr (776000 * annuity_factor (0.045 / 12) (25 * 12) * 12 / 0.28, 24000)"
    by (simp add: calc_affordable_pos_rate)
  show "760000 * annuity_factor (0.045 / 12) (25 * 12) * 12 / 0.28
          < 776000 * annuity_factor (0.045 / 12) (25 * 12) * 12 / 0.28"
    using scenario_factor_pos by simp
qed

text \<open>
  The claim as stated fails: both calls return, and the income at the 5% down rate is
  not greater than the income at the 3% down rate.
\<close>

theorem scenario_800k_income_not_greater:
  "\<not> isl (calc_affordable 800000 0.05 0.045)
   \<and> \<not> isl (calc_affordable 800000 0.03 0.045)
   \<and> \<not> fst (projr (calc_affordable 800000 0.03 0.045))
         < fst (projr (calc_affordable 800000 0.05 0.045))"
  using scenario_factor_pos by (simp add: calc_affordable_pos_rate)

section \<open>Required income as a function of price\<close>

lemma stress_factor_pos:
  "0 < annuity_factor (max 0.0525 (c + 0.02) / 12) ((if ft \<or> nc then 30 else 25) * 12)"
  by (rule annuity_factor_pos [OF stress_rate_pos]) simp

lemma stress_income_value:
  "fst (projr (calc_stress_test_payment price c ft nc))
     = (price - calculate_down_payment price)
         * (annuity_factor (max 0.0525 (c + 0.02) / 12) ((if ft \<or> nc then 30 else 25) * 12)
            * 12 / 0.39)"
  by (simp add: calc_stress_test_payment_value)

lemma stress_income_le_iff:
  "fst (projr (calc_stress_test_payment p1 c ft nc))
     \<le> fst (projr (calc_stress_test_payment p2 c ft nc))
   \<longleftrightarrow> p1 - calculate_down_payment p1 \<le> p2 - calculate_down_payment p2"
proof -
  have "0 < annuity_factor (max 0.0525 (c + 0.02) / 12) ((if ft \<or> nc then 30 else 25) * 12)
             * 12 / 0.39"
    using stress_factor_pos [of c ft nc] by simp
  then show ?thesis
    unfolding stress_income_value by (simp only: mult_le_cancel_right_pos)
qed

lemma loan_mono_low:
  assumes "p1 \<le> p2" and "p2 \<le> 1500000"
  shows "p1 - calculate_down_payment p1 \<le> p2 - calculate_down_payment p2"
  using assms by (auto simp add: calculate_down_payment_def Let_def diff_divide_distrib)

lemma loan_mono_high:
  assumes "p1 \<le> p2" and "1500000 < p1"
  shows "p1 - calculate_down_payment p1 \<le> p2 - calculate_down_payment p2"
  using assms by (simp add: calculate_down_payment_def Let_def)

lemma household_income_le_iff:
  "household_income h i1 \<le> household_income h i2 \<longleftrightarrow> i1 \<le> i2"
  by (cases h) (simp_all add: household_income_def)

text \<open>
  C1, as amended. For prices \<open>p1 < p2\<close> and the other inputs fixed, the required income
  at \<open>p2\<close> is at least the required income at \<open>p1\<close>
  \<^item> in the stress-tested regime when both prices are at most 1,500,000 or both are above
    1,500,000, for either household type (the couple factor 0.75 keeps the order);
  \<^item> in the simple regime, for a positive contract rate and a down rate of at most 1.

  Across the 1,500,000 ceiling (\<open>p1 \<le> 1,500,000 < p2\<close>) the down payment jumps to 20%
  of the price, and the required income at \<open>p2\<close> is at least the one at \<open>p1\<close> exactly
  when \<open>0.8 * p2\<close> is at least the loan at \<open>p1\<close>.
\<close>

theorem required_income_monotone_within_tier:
  assumes "p1 < p2"
  shows "(\<exists>i1 i2 d1 d2 sr yrs.
            calc_stress_test_payment p1 c ft nc = Inr (i1, d1, sr, yrs)
          \<and> calc_stress_test_payment p2 c ft nc = Inr (i2, d2, sr, yrs)
          \<and> (p2 \<le> 1500000 \<or> 1500000 < p1 \<longrightarrow> i1 \<le> i2)
          \<and> (p1 \<le> 1500000 \<and> 1500000 < p2 \<longrightarrow> (i1 \<le> i2 \<longleftrightarrow> p1 - d1 \<le> 0.8 * p2))
          \<and> (p1 = 1500000 \<longrightarrow> (i1 \<le> i2 \<longleftrightarrow> 1718750 \<le> p2))
          \<and> (household_income h i1 \<le> household_income h i2 \<longleftrightarrow> i1 \<le> i2))
       \<and> (0 < rate \<and> down_pct \<le> 1 \<longrightarrow>
            (\<exists>j1 j2 e1 e2.
               calc_affordable p1 down_pct rate = Inr (j1, e1)
             \<and> calc_affordable p2 down_pct rate = Inr (j2, e2)
             \<and> j1 \<le> j2))"
proof (intro conjI impI)
  let ?r1 = "calc_stress_test_payment p1 c ft nc"
  let ?r2 = "calc_stress_test_payment p2 c ft nc"
  have r1: "?r1 = Inr (fst (projr ?r1), calculate_down_payment p1, max 0.0525 (c + 0.02),
                       if ft \<or> nc then 30 else 25)"
    by (simp add: calc_stress_test_payment_value)
  have r2: "?r2 = Inr (fst (projr ?r2), calculate_down_payment p2, max 0.0525 (c + 0.02),
                       if ft \<or> nc then 30 else 25)"
    by (simp add: calc_stress_test_payment_value)
  have same: "p2 \<le> 1500000 \<or> 1500000 < p1 \<longrightarrow> fst (projr ?r1) \<le> fst (projr ?r2)"
    unfolding stress_income_le_iff
    using assms loan_mono_low [of p1 p2] loan_mono_high [of p1 p2] by auto
  have across: "p1 \<le> 1500000 \<and> 1500000 < p2 \<longrightarrow>
      (fst (projr ?r1) \<le> fst (projr ?r2) \<longleftrightarrow> p1 - calculate_down_payment p1 \<le> 0.8 * p2)"
    unfolding stress_income_le_iff by (simp add: calculate_down_payment_def [of p2])
  have at_ceiling: "p1 = 1500000 \<longrightarrow>
      (fst (projr ?r1) \<le> fst (projr ?r2) \<longleftrightarrow> 1718750 \<le> p2)"
    unfolding stress_income_le_iff using assms by (auto simp add: calculate_down_payment_def)
  show "\<exists>i1 i2 d1 d2 sr yrs.
            calc_stress_test_payment p1 c ft nc = Inr (i1, d1, sr, yrs)
          \<and> calc_stress_test_payment p2 c ft nc = Inr (i2, d2, sr, yrs)
          \<and> (p2 \<le> 1500000 \<or> 1500000 < p1 \<longrightarrow> i1 \<le> i2)
          \<and> (p1 \<le> 1500000 \<and> 1500000 < p2 \<longrightarrow> (i1 \<le> i2 \<longleftrightarrow> p1 - d1 \<le> 0.8 * p2))
          \<and> (p1 = 1500000 \<longrightarrow> (i1 \<le> i2 \<longleftrightarrow> 1718750 \<le> p2))
          \<and> (household_income h i1 \<le> household_income h i2 \<longleftrightarrow> i1 \<le> i2)"
    using r1 r2 same across at_ceiling household_income_le_iff by blast
next
  assume a: "0 < rate \<and> down_pct \<le> 1"
  then have f: "0 \<le> annuity_factor (rate / 12) (25 * 12) * 12 / 0.28"
    using annuity_factor_pos [of "rate / 12" "25 * 12"] by simp
  have "p1 - p1 * down_pct \<le> p2 - p2 * down_pct"
  proof -
    have "0 \<le> (p2 - p1) * (1 - down_pct)" using a assms by simp
    then show ?thesis by (simp add: algebra_simps)
  qed
  then have "(p1 - p1 * down_pct) * (annuity_factor (rate / 12) (25 * 12) * 12 / 0.28)
           \<le> (p2 - p2 * down_pct) * (annuity_factor (rate / 12) (25 * 12) * 12 / 0.28)"
    using f by (rule mult_right_mono)
  then have le: "(p1 - p1 * down_pct) * annuity_factor (rate / 12) (25 * 12) * 12 / 0.28
           \<le> (p2 - p2 * down_pct) * annuity_factor (rate / 12) (25 * 12) * 12 / 0.28"
    by (simp only: mult.assoc times_divide_eq_right)
  from a have rate: "0 < rate" by simp
  show "\<exists>j1 j2 e1 e2.
               calc_affordable p1 down_pct rate = Inr (j1, e1)
             \<and> calc_affordable p2 down_pct rate = Inr (j2, e2)
             \<and> j1 \<le> j2"
    using calc_affordable_pos_rate [OF rate, of p1 down_pct]
      calc_affordable_pos_rate [OF rate, of p2 down_pct] le by blast
qed

theorem required_income_monotone_within_tier_witness:
  "(\<exists>i1 i2 d1 d2 sr yrs.
       calc_stress_test_payment 800000 0.045 True False = Inr (i1, d1, sr, yrs)
     \<and> calc_stress_test_payment 1000000 0.045 True False = Inr (i2, d2, sr, yrs)
     \<and> i1 \<le> i2)
   \<and> (\<exists>j1 j2 e1 e2.
         calc_affordable 800000 0.05 0.045 = Inr (j1, e1)
       \<and> calc_affordable 1000000 0.05 0.045 = Inr (j2, e2)
       \<and> j1 \<le> j2)"
  using required_income_monotone_within_tier
          [of 800000 1000000 "0.045" True False Single "0.045" "0.05"]
  by simp blast

text \<open>
  The claim as stated fails at the ceiling: with a contract rate of 4.5% and a first-time
  buyer, both calls return and the required income at 1,525,000 is below the required
  income at 1,500,000 (the loan falls from 1,375,000 to 1,220,000).
\<close>

theorem required_income_drops_above_ceiling:
  "\<not> isl (calc_stress_test_payment 1500000 0.045 True False)
   \<and> \<not> isl (calc_stress_test_payment 1525000 0.045 True False)
   \<and> \<not> fst (projr (calc_stress_test_payment 1500000 0.045 True False))
         \<le> fst (projr (calc_stress_test_payment 1525000 0.045 True False))"
proof (intro conjI)
  show "\<not> isl (calc_stress_test_payment 1500000 0.045 True False)"
    by (simp add: calc_stress_test_payment_value)
  show "\<not> isl (calc_stress_test_payment 1525000 0.045 True False)"
    by (simp add: calc_stress_test_payment_value)
  show "\<not> fst (projr (calc_stress_test_payment 1500000 0.045 True False))
         \<le> fst (projr (calc_stress_test_payment 1525000 0.045 True False))"
    by (simp add: stress_income_le_iff calculate_down_payment_def)
qed

section \<open>The tiered down payment\<close>

lemma down_payment_below_ceiling:
  assumes "p \<le> 1500000"
  shows "calculate_down_payment p = 0.05 * p + 0.05 * max 0 (p - 500000)"
  using assms by (simp add: calculate_down_payment_def Let_def max_def diff_divide_distrib)

lemma down_payment_above_ceiling:
  assumes "1500000 < p"
  shows "calculate_down_payment p = p * 0.20"
  using assms by (simp add: calculate_down_payment_def)

lemma isCont_down_payment_below:
  assumes "x < 1500000"
  shows "isCont calculate_down_payment x"
proof -
  have "\<forall>\<^sub>F p in nhds x. p \<in> {..<1500000}"
    using assms by (intro eventually_nhds_in_open) simp_all
  then have ev: "\<forall>\<^sub>F p in nhds x.
      calculate_down_payment p = 0.05 * p + 0.05 * max 0 (p - 500000)"
    by (rule eventually_mono) (simp add: down_payment_below_ceiling)
  have "isCont (\<lambda>p::real. 0.05 * p + 0.05 * max 0 (p - 500000)) x"
    by (intro continuous_intros)
  then show ?thesis
    by (simp only: isCont_cong [OF ev])
qed

lemma isCont_down_payment_above:
  assumes "1500000 < x"
  shows "isCont calculate_down_payment x"
proof -
  have "\<forall>\<^sub>F p in nhds x. p \<in> {1500000<..}"
    using assms by (intro eventually_nhds_in_open) simp_all
  then have ev: "\<forall>\<^sub>F p in nhds x. calculate_down_payment p = p * 0.20"
    by (rule eventually_mono) (simp add: down_payment_above_ceiling)
  have "isCont (\<lambda>p::real. p * 0.20) x"
    by (intro continuous_intros)
  then show ?thesis
    by (simp only: isCont_cong [OF ev])
qed

text \<open>
  C2, as amended. The tiered down payment is continuous at every price other than
  1,500,000: at 500,000 the two band formulas agree (25,000 on both sides). At 1,500,000
  the band formula below gives 125,000 and every price above pays 20% of the whole
  price, more than 175,000 above that, so the function jumps there. On each tier the
  amount is linear in the price, with slopes 0.05, 0.10 and 0.20, which do not decrease
  from tier to tier. app5.py's function is the same function of the price.
\<close>

theorem down_payment_continuity_and_slopes:
  "(x \<noteq> 1500000 \<longrightarrow> isCont calculate_down_payment x)
   \<and> calculate_down_payment 500000 = 500000 * 0.05
   \<and> calculate_down_payment 1500000 = 500000 * 0.05 + (1500000 - 500000) * 0.10
   \<and> (1500000 < q \<longrightarrow>
        calculate_down_payment q - calculate_down_payment 1500000 > 175000)
   \<and> (p \<le> 500000 \<and> q \<le> 500000 \<longrightarrow>
        calculate_down_payment q - calculate_down_payment p = 0.05 * (q - p))
   \<and> (500000 \<le> p \<and> p \<le> 1500000 \<and> 500000 \<le> q \<and> q \<le> 1500000 \<longrightarrow>
        calculate_down_payment q - calculate_down_payment p = 0.10 * (q - p))
   \<and> (1500000 < p \<and> 1500000 < q \<longrightarrow>
        calculate_down_payment q - calculate_down_payment p = 0.20 * (q - p))
   \<and> (0.05::real) \<le> 0.10 \<and> (0.10::real) \<le> 0.20
   \<and> calculate_down_payment_app5 x ft nc = calculate_down_payment x"
proof (intro conjI impI)
  assume "x \<noteq> 1500000"
  then show "isCont calculate_down_payment x"
    using isCont_down_payment_below [of x] isCont_down_payment_above [of x] by fastforce
next
  show "calculate_down_payment_app5 x ft nc = calculate_down_payment x"
    by (rule calculate_down_payment_app5_eq)
qed (auto simp add: calculate_down_payment_def Let_def diff_divide_distrib)

theorem down_payment_continuity_and_slopes_witness:
  "isCont calculate_down_payment 500000
   \<and> calculate_down_payment 400000 - calculate_down_payment 300000 = 0.05 * (400000 - 300000)
   \<and> calculate_down_payment 900000 - calculate_down_payment 800000 = 0.10 * (900000 - 800000)
   \<and> calculate_down_payment 1700000 - calculate_down_payment 1600000
       = 0.20 * (1700000 - 1600000)
   \<and> calculate_down_payment 1600000 - calculate_down_payment 1500000 > 175000"
proof -
  have a: "isCont calculate_down_payment 500000"
    using down_payment_continuity_and_slopes [of 500000 1600000 300000 True False] by simp
  have b: "calculate_down_payment 400000 - calculate_down_payment 300000
             = 0.05 * (400000 - 300000)"
    using down_payment_continuity_and_slopes [of 500000 400000 300000 True False] by simp
  have c: "calculate_down_payment 900000 - calculate_down_payment 800000
             = 0.10 * (900000 - 800000)"
    using down_payment_continuity_and_slopes [of 500000 900000 800000 True False] by simp
  have d: "calculate_down_payment 1700000 - calculate_down_payment 1600000
             = 0.20 * (1700000 - 1600000)"
    using down_payment_continuity_and_slopes [of 500000 1700000 1600000 True False] by simp
  have e: "calculate_down_payment 1600000 - calculate_down_payment 1500000 > 175000"
    using down_payment_continuity_and_slopes [of 500000 1600000 300000 True False] by simp
  show ?thesis using a b c d e by blast
qed

text \<open>
  The claim as stated fails: the down payment is not continuous at the 1,500,000
  threshold.
\<close>

theorem down_payment_jump_at_ceiling: "\<not> isCont calculate_down_payment 1500000"
proof
  assume "isCont calculate_down_payment 1500000"
  then have "\<forall>r>0. \<exists>s>0. \<forall>x. x \<noteq> 1500000 \<and> \<bar>x - 1500000\<bar> < s
               \<longrightarrow> \<bar>calculate_down_payment x - calculate_down_payment 1500000\<bar> < r"
    by (simp add: isCont_def LIM_def dist_real_def)
  then obtain s where s: "0 < s"
    and near: "\<And>x. x \<noteq> 1500000 \<Longrightarrow> \<bar>x - 1500000\<bar> < s
                 \<Longrightarrow> \<bar>calculate_down_payment x - calculate_down_payment 1500000\<bar> < 1"
    by (metis zero_less_one)
  have "\<bar>calculate_down_payment (1500000 + s / 2) - calculate_down_payment 1500000\<bar> < 1"
    using s by (intro near) simp_all
  moreover have "calculate_down_payment (1500000 + s / 2) = 300000 + s / 10"
    using s by (simp add: calculate_down_payment_def)
  moreover have "calculate_down_payment 1500000 = 125000"
    by (simp add: calculate_down_payment_def)
  ultimately show False
    using s by simp
qed

section \<open>The guarded cumulative function\<close>

text \<open>
  The function of app2.py, app4.py, app5.py and app7.py returns a finite number whenever
  \<open>sigma\<close> is not zero: 0 for an income of at most 0, and otherwise a value that lies
  in \<open>[0, 1)\<close> and does not decrease with the income (for a positive \<open>sigma\<close>).
\<close>

lemma lognorm_cdf_app2_finite:
  assumes "sigma \<noteq> 0"
  shows "lognorm_cdf_app2 x mu sigma = Fin (cdf_value x mu sigma)"
  using assms by (simp add: lognorm_cdf_app2_def cdf_value_def np_sub_def Let_def)

lemma cdf_value_bounds: "0 \<le> cdf_value x mu sigma \<and> cdf_value x mu sigma < 1"
proof -
  have "- 1 < tanh (sqrt (2 / 3) * ((ln x - mu) / sigma))"
    by (rule tanh_real_gt_neg1)
  moreover have "tanh (sqrt (2 / 3) * ((ln x - mu) / sigma)) < 1"
    by (rule tanh_real_lt_1)
  ultimately show ?thesis
    by (simp add: cdf_value_def)
qed

lemma cdf_value_mono:
  assumes "0 < sigma" and "x1 \<le> x2"
  shows "cdf_value x1 mu sigma \<le> cdf_value x2 mu sigma"
proof (cases "x1 \<le> 0")
  case True
  then show ?thesis
    using cdf_value_bounds [of x2 mu sigma] by (simp add: cdf_value_def)
next
  case False
  then have pos: "0 < x1" "0 < x2"
    using assms by simp_all
  then have "ln x1 \<le> ln x2"
    using assms by simp
  then have "(ln x1 - mu) / sigma \<le> (ln x2 - mu) / sigma"
    using assms by (simp add: divide_right_mono)
  then have "sqrt (2 / 3) * ((ln x1 - mu) / sigma) \<le> sqrt (2 / 3) * ((ln x2 - mu) / sigma)"
    by (intro mult_left_mono) simp_all
  then show ?thesis
    using pos by (simp add: cdf_value_def)
qed

lemma prob_app2_value:
  "prob_app2 income = Fin (1 - cdf_value income 10.45 0.95)"
  using cdf_value_bounds [of income "10.45" "0.95"]
  by (simp add: prob_app2_def lognorm_cdf_app2_finite np_sub_def py_max0_def)

lemma people_app7_value:
  "people_app7 price rate pop h ft nc
     = Inr (Fin ((1 - cdf_value (household_income h
                       (fst (projr (calc_stress_test_payment price rate ft nc)))) 10.45 0.95)
                 * pop * pop_mult h))"
  by (simp add: people_app7_def calc_stress_test_payment_value prob_app2_value)

lemma lognorm_cdf_app2_nonpositive:
  assumes "x \<le> 0"
  shows "lognorm_cdf_app2 x mu sigma = Fin 0"
  using assms by (simp add: lognorm_cdf_app2_def)

section \<open>app.py's cumulative function\<close>

text \<open>
  C8. The claim holds for the guarded function (\<open>lognorm_cdf_app2_nonpositive\<close>) and
  fails for app.py's, which has no guard: at an income of \<open>-1\<close> the logarithm is
  \<open>nan\<close>, and so are the cumulative value and the survival probability, where the
  guarded function returns 0.
\<close>

theorem lognorm_cdf_app_negative_income_nan:
  "lognorm_cdf (- 1) 0.95 (exp 10.45) = NaN
   \<and> prob_app (- 1) = NaN
   \<and> lognorm_cdf_app2 (- 1) 10.45 0.95 = Fin 0"
  by (simp add: lognorm_cdf_def lognorm_cdf_app2_def prob_app_def np_sub_def np_square_def)

lemma exp_sqrt2_ge_4: "4 \<le> exp (sqrt 2)"
proof -
  have s: "(141 / 100 :: real) \<le> sqrt 2"
    by (rule real_le_rsqrt) (simp add: power2_eq_square)
  have t: "1 + 141 / 800 + (141 / 800)\<^sup>2 / 2 \<le> exp (141 / 800 :: real)"
    by (rule exp_lower_Taylor_quadratic) simp
  have "(4::real) \<le> (1 + 141 / 800 + (141 / 800)\<^sup>2 / 2) ^ 8"
    by (simp add: power2_eq_square power_divide)
  also have "\<dots> \<le> exp (141 / 800 :: real) ^ 8"
    using t by (rule power_mono) simp
  also have "\<dots> = exp (of_nat 8 * (141 / 800 :: real))"
    by (rule exp_of_nat_mult [symmetric])
  also have "\<dots> = exp (141 / 100 :: real)"
    by simp
  also have "\<dots> \<le> exp (sqrt 2)"
    using s by simp
  finally show ?thesis .
qed

lemma tanh_half_sqrt2_ge: "3 / 5 \<le> tanh (sqrt 2 / 2)"
proof -
  have "exp (- sqrt 2) = 1 / exp (sqrt 2)"
    by (rule exp_minus')
  also have "\<dots> \<le> 1 / 4"
    using exp_sqrt2_ge_4 by (simp add: field_simps)
  finally have e: "exp (- sqrt 2) \<le> 1 / 4" .
  have "tanh (sqrt 2 / 2) = (1 - exp (- sqrt 2)) / (1 + exp (- sqrt 2))"
    by (simp add: tanh_real_altdef)
  moreover have "3 / 5 \<le> (1 - exp (- sqrt 2)) / (1 + exp (- sqrt 2))"
  proof -
    have "3 / 5 * (1 + exp (- sqrt 2)) \<le> 1 - exp (- sqrt 2)"
      using e by simp
    moreover have "0 < 1 + exp (- sqrt 2)"
      by (intro add_pos_pos exp_gt_zero zero_less_one)
    ultimately show ?thesis
      by (simp only: pos_le_divide_eq)
  qed
  ultimately show ?thesis by simp
qed

lemma exp_minus_half_ge: "25 / 42 \<le> exp (- 1 / 2 :: real)"
proof -
  have t: "exp (1 / 16 :: real) \<le> 1 + 1 / 16 + (1 / 16)\<^sup>2"
    by (rule exp_bound) simp_all
  have "exp (1 / 2 :: real) = exp (of_nat 8 * (1 / 16 :: real))"
    by simp
  also have "\<dots> = exp (1 / 16 :: real) ^ 8"
    by (rule exp_of_nat_mult)
  also have "\<dots> \<le> (1 + 1 / 16 + (1 / 16)\<^sup>2) ^ 8"
    using t by (intro power_mono) simp_all
  also have "\<dots> \<le> (42 / 25 :: real)"
    by (simp add: power2_eq_square power_divide)
  finally have u: "exp (1 / 2 :: real) \<le> 42 / 25" .
  have "exp (- 1 / 2 :: real) = 1 / exp (1 / 2)"
    using exp_minus' [of "1 / 2 :: real"] by simp
  moreover have "25 / 42 \<le> 1 / exp (1 / 2 :: real)"
    using u by (simp add: field_simps)
  ultimately show ?thesis by simp
qed

lemma sqrt_two_over_pi_ge: "7 / 10 \<le> sqrt (2 / pi)"
proof (rule real_le_rsqrt)
  have "(7 / 10)\<^sup>2 * pi \<le> 2"
    using pi_less_4 by (simp add: power2_eq_square)
  then show "(7 / 10)\<^sup>2 \<le> 2 / pi"
    using pi_gt_zero by (simp only: pos_le_divide_eq)
qed

lemma sqrt_two_over_pi_le: "sqrt (2 / pi) \<le> 1"
proof -
  have "2 / pi \<le> 1"
    using pi_ge_two pi_gt_zero by (simp add: field_simps)
  then show ?thesis by simp
qed

lemma exp_minus_8_le: "exp (- 8 :: real) \<le> 1 / 256"
proof -
  have "(2::real) ^ 8 \<le> exp 1 ^ 8"
    using exp_ge_add_one_self [of "1::real"] by (intro power_mono) simp_all
  also have "\<dots> = exp (of_nat 8 * (1::real))"
    by (rule exp_of_nat_mult [symmetric])
  finally have "256 \<le> exp (8::real)" by simp
  then have "1 / exp (8::real) \<le> 1 / 256"
    by (intro divide_left_mono) simp_all
  then show ?thesis
    by (simp only: exp_minus')
qed

lemma app_cdf_at_z1_ge: "121 / 120 \<le> app_cdf_at_z1"
proof -
  have "7 / 10 * (25 / 42) \<le> sqrt (2 / pi) * exp (- 1 / 2)"
    using sqrt_two_over_pi_ge exp_minus_half_ge by (intro mult_mono) simp_all
  then show ?thesis
    using tanh_half_sqrt2_ge by (simp add: app_cdf_at_z1_def)
qed

lemma app_cdf_at_z4_le: "app_cdf_at_z4 \<le> 513 / 512"
proof -
  have "sqrt (2 / pi) * exp (- 8) \<le> 1 * (1 / 256)"
    using sqrt_two_over_pi_le exp_minus_8_le by (intro mult_mono) simp_all
  moreover have "tanh (sqrt 2 * 4 / 2) < 1"
    by (rule tanh_real_lt_1)
  ultimately show ?thesis
    by (simp add: app_cdf_at_z4_def)
qed

lemma lognorm_cdf_at_z1: "lognorm_cdf (exp 11.4) 0.95 (exp 10.45) = Fin app_cdf_at_z1"
  by (simp add: lognorm_cdf_def np_sub_def np_square_def app_cdf_at_z1_def)

lemma lognorm_cdf_at_z4: "lognorm_cdf (exp 14.25) 0.95 (exp 10.45) = Fin app_cdf_at_z4"
  by (simp add: lognorm_cdf_def np_sub_def np_square_def app_cdf_at_z4_def)

text \<open>
  C4. The claim holds for the guarded function (\<open>cdf_value_bounds\<close>,
  \<open>cdf_value_mono\<close>) and fails for app.py's, which adds a density term to the
  \<open>tanh\<close> approximation. At the income \<open>exp 11.4\<close> (about 89,000, one standard
  deviation above the median) its value is above 1 and the survival probability is
  negative; at the larger income \<open>exp 14.25\<close> its value is smaller, so it is not
  monotone either.
\<close>

theorem lognorm_cdf_app_exceeds_one:
  "np_less (Fin 1) (lognorm_cdf (exp 11.4) 0.95 (exp 10.45))
   \<and> np_less (prob_app (exp 11.4)) (Fin 0)
   \<and> exp 11.4 < (exp 14.25 :: real)
   \<and> np_less (lognorm_cdf (exp 14.25) 0.95 (exp 10.45))
              (lognorm_cdf (exp 11.4) 0.95 (exp 10.45))"
  using app_cdf_at_z1_ge app_cdf_at_z4_le
  unfolding prob_app_def lognorm_cdf_at_z1 lognorm_cdf_at_z4
  by (simp add: np_sub_def)

section \<open>The two-property comparison\<close>

lemma same_loan_same_people:
  assumes "p1 - calculate_down_payment p1 = p2 - calculate_down_payment p2"
  shows "people_app7 p1 rate pop h ft nc = people_app7 p2 rate pop h ft nc"
  unfolding people_app7_value stress_income_value assms ..

lemma winner_app7_finite:
  "winner_app7 price1 price2 (Fin a) (Fin b) =
     (if \<bar>price1 - price2\<bar> > 50000
      then Some (if b < a then Property1_wins else if a < b then Property2_wins else Tie)
      else None)"
  by (simp add: winner_app7_def np_sub_def)

text \<open>
  C9, as amended. In app7.py both buyer counts are finite numbers and the report is the
  one \<open>winner_app7\<close> gives on them. For finite counts \<open>a\<close> (property 1) and \<open>b\<close>
  (property 2):
  \<^item> when the absolute price difference is at most 50,000, no variant reports a winner;
  \<^item> when it exceeds 50,000 and the counts differ, every variant reports exactly the
    property with the strictly larger count;
  \<^item> when it exceeds 50,000 and the counts are equal, app7.py reports a tie and no winner.
\<close>

theorem winner_reported:
  "(\<exists>people1 people2.
      people_app7 price1 rate pop h ft nc = Inr (Fin people1)
    \<and> people_app7 price2 rate pop h ft nc = Inr (Fin people2)
    \<and> compare_app7 price1 price2 rate pop h ft nc
        = Inr (winner_app7 price1 price2 (Fin people1) (Fin people2)))
   \<and> (\<bar>price1 - price2\<bar> \<le> 50000 \<longrightarrow>
        winner_app4 price1 price2 (Fin a) (Fin b) = None
      \<and> winner_app5 price1 price2 (Fin a) (Fin b) = None
      \<and> winner_app7 price1 price2 (Fin a) (Fin b) = None)
   \<and> (\<bar>price1 - price2\<bar> > 50000 \<and> b < a \<longrightarrow>
        winner_app4 price1 price2 (Fin a) (Fin b) = Some Property1_wins
      \<and> winner_app5 price1 price2 (Fin a) (Fin b) = Some Property1_wins
      \<and> winner_app7 price1 price2 (Fin a) (Fin b) = Some Property1_wins)
   \<and> (\<bar>price1 - price2\<bar> > 50000 \<and> a < b \<longrightarrow>
        winner_app4 price1 price2 (Fin a) (Fin b) = Some Property2_wins
      \<and> winner_app5 price1 price2 (Fin a) (Fin b) = Some Property2_wins
      \<and> winner_app7 price1 price2 (Fin a) (Fin b) = Some Property2_wins)
   \<and> (\<bar>price1 - price2\<bar> > 50000 \<and> a = b \<longrightarrow>
        winner_app7 price1 price2 (Fin a) (Fin b) = Some Tie)"
proof (intro conjI impI)
  show "\<exists>people1 people2.
      people_app7 price1 rate pop h ft nc = Inr (Fin people1)
    \<and> people_app7 price2 rate pop h ft nc = Inr (Fin people2)
    \<and> compare_app7 price1 price2 rate pop h ft nc
        = Inr (winner_app7 price1 price2 (Fin people1) (Fin people2))"
    by (simp add: compare_app7_def people_app7_value)
qed (simp_all add: winner_app4_def winner_app5_def winner_app7_def np_sub_def)

theorem winner_reported_witness:
  "winner_app7 800000 1000000 (Fin 5) (Fin 3) = Some Property1_wins
   \<and> winner_app4 800000 1000000 (Fin 3) (Fin 5) = Some Property2_wins
   \<and> winner_app5 800000 820000 (Fin 3) (Fin 5) = None
   \<and> winner_app7 800000 1000000 (Fin 3) (Fin 3) = Some Tie"
proof -
  have a: "winner_app7 800000 1000000 (Fin 5) (Fin 3) = Some Property1_wins"
    using winner_reported [of 800000 "0.045" 20000000 Single True False 1000000 5 3]
    by simp
  have b: "winner_app4 800000 1000000 (Fin 3) (Fin 5) = Some Property2_wins"
    using winner_reported [of 800000 "0.045" 20000000 Single True False 1000000 3 5]
    by simp
  have c: "winner_app5 800000 820000 (Fin 3) (Fin 5) = None"
    using winner_reported [of 800000 "0.045" 20000000 Single True False 820000 3 5]
    by simp
  have d: "winner_app7 800000 1000000 (Fin 3) (Fin 3) = Some Tie"
    using winner_reported [of 800000 "0.045" 20000000 Single True False 1000000 3 3]
    by simp
  show ?thesis using a b c d by blast
qed

text \<open>
  The claim as stated fails: the prices 1,500,000 and 1,718,750 differ by more than
  50,000 and leave the same loan of 1,375,000, hence the same required income and the
  same buyer count, and app7.py reports a tie, not a winner.
\<close>

theorem equal_counts_tie_reported:
  "\<bar>1500000 - 1718750\<bar> > (50000::real)
   \<and> compare_app7 1500000 1718750 0.045 20000000 Single True False = Inr (Some Tie)"
proof -
  have "(1500000::real) - calculate_down_payment 1500000
          = 1718750 - calculate_down_payment 1718750"
    by (simp add: calculate_down_payment_def)
  then have "people_app7 1500000 0.045 20000000 Single True False
           = people_app7 1718750 0.045 20000000 Single True False"
    by (rule same_loan_same_people)
  then show ?thesis
    by (simp add: compare_app7_def people_app7_value [of 1718750] winner_app7_finite)
qed

end
